theory Spec2Isabelle
  imports Main "HOL-Library.Sublist" "HOL-Library.Log_Nat"
begin

section \<open>Python text and numbers used by the handlers\<close>

text \<open>
  A Python \<open>str\<close> is modelled as a \<open>string\<close> holding its UTF-8 bytes: the characters
  below 128 are themselves, every other code point is its multi-byte sequence. The
  operations that read single characters (\<open>upper\<close>, \<open>title\<close>, \<open>int\<close>) are modelled on
  the ASCII letters and digits; \<open>strip\<close> knows every whitespace code point of Python.
\<close>

type_synonym 'a dict = "(string \<times> 'a) list"

definition ascii :: "string \<Rightarrow> bool" where
  "ascii s = list_all (\<lambda>c. (of_char c :: nat) < 128) s"

text \<open>\<open>s.startswith(p)\<close> and \<open>needle in s\<close>.\<close>

definition startswith :: "string \<Rightarrow> string \<Rightarrow> bool" where
  "startswith s p = prefix p s"

fun str_in :: "string \<Rightarrow> string \<Rightarrow> bool" where
  "str_in needle [] = (needle = [])"
| "str_in needle (c # cs) = (prefix needle (c # cs) \<or> str_in needle cs)"

text \<open>
  The code points for which \<open>str.isspace\<close> holds, as UTF-8: U+0009..U+000D,
  U+001C..U+0020, U+0085, U+00A0, U+1680, U+2000..U+200A, U+2028, U+2029, U+202F,
  U+205F, U+3000.
\<close>

definition whitespace :: "string list" where
  "whitespace =
     [[CHR 0x09], [CHR 0x0A], [CHR 0x0B], [CHR 0x0C], [CHR 0x0D],
      [CHR 0x1C], [CHR 0x1D], [CHR 0x1E], [CHR 0x1F], [CHR 0x20],
      [CHR 0xC2, CHR 0x85], [CHR 0xC2, CHR 0xA0], [CHR 0xE1, CHR 0x9A, CHR 0x80],
      [CHR 0xE2, CHR 0x80, CHR 0x80], [CHR 0xE2, CHR 0x80, CHR 0x81],
      [CHR 0xE2, CHR 0x80, CHR 0x82], [CHR 0xE2, CHR 0x80, CHR 0x83],
      [CHR 0xE2, CHR 0x80, CHR 0x84], [CHR 0xE2, CHR 0x80, CHR 0x85],
      [CHR 0xE2, CHR 0x80, CHR 0x86], [CHR 0xE2, CHR 0x80, CHR 0x87],
      [CHR 0xE2, CHR 0x80, CHR 0x88], [CHR 0xE2, CHR 0x80, CHR 0x89],
      [CHR 0xE2, CHR 0x80, CHR 0x8A], [CHR 0xE2, CHR 0x80, CHR 0xA8],
      [CHR 0xE2, CHR 0x80, CHR 0xA9], [CHR 0xE2, CHR 0x80, CHR 0xAF],
      [CHR 0xE2, CHR 0x81, CHR 0x9F], [CHR 0xE3, CHR 0x80, CHR 0x80]]"

definition space_at_start :: "string list \<Rightarrow> string \<Rightarrow> nat" where
  "space_at_start ws s = (case find (\<lambda>w. prefix w s) ws of None \<Rightarrow> 0 | Some w \<Rightarrow> length w)"

function lstrip_with :: "string list \<Rightarrow> string \<Rightarrow> string" where
  "lstrip_with ws s =
     (if space_at_start ws s = 0 then s else lstrip_with ws (drop (space_at_start ws s) s))"
  by pat_completeness auto
termination
proof (relation "measure (\<lambda>(ws, s). length s)")
  show "wf (measure (\<lambda>(ws, s). length s))" by simp
next
  fix ws :: "string list" and s :: string
  assume "space_at_start ws s \<noteq> 0"
  moreover have "space_at_start ws s \<le> length s"
    by (auto simp: space_at_start_def find_Some_iff prefix_length_le split: option.splits)
  ultimately show "((ws, drop (space_at_start ws s) s), (ws, s)) \<in> measure (\<lambda>(ws, s). length s)"
    by simp
qed

declare lstrip_with.simps [simp del]

text \<open>\<open>s.strip()\<close>: whitespace removed at both ends.\<close>

definition strip :: "string \<Rightarrow> string" where
  "strip s = rev (lstrip_with (map rev whitespace) (rev (lstrip_with whitespace s)))"

text \<open>\<open>s.upper()\<close> and \<open>s.title()\<close> on ASCII letters; other bytes are kept.\<close>

definition is_lower :: "char \<Rightarrow> bool" where
  "is_lower c = (97 \<le> (of_char c :: nat) \<and> (of_char c :: nat) \<le> 122)"

definition is_upper :: "char \<Rightarrow> bool" where
  "is_upper c = (65 \<le> (of_char c :: nat) \<and> (of_char c :: nat) \<le> 90)"

definition to_upper :: "char \<Rightarrow> char" where
  "to_upper c = (if is_lower c then char_of ((of_char c :: nat) - 32) else c)"

definition to_lower :: "char \<Rightarrow> char" where
  "to_lower c = (if is_upper c then char_of ((of_char c :: nat) + 32) else c)"

definition upper :: "string \<Rightarrow> string" where
  "upper s = map to_upper s"

fun title_from :: "bool \<Rightarrow> string \<Rightarrow> string" where
  "title_from previous_is_cased [] = []"
| "title_from previous_is_cased (c # cs) =
     (if is_lower c then (if previous_is_cased then c else to_upper c) # title_from True cs
      else if is_upper c then (if previous_is_cased then to_lower c else c) # title_from True cs
      else c # title_from False cs)"

definition title :: "string \<Rightarrow> string" where
  "title s = title_from False s"

text \<open>\<open>str(n)\<close> of an integer.\<close>

definition digit_char :: "nat \<Rightarrow> char" where
  "digit_char d = char_of (48 + d)"

function str_nat :: "nat \<Rightarrow> string" where
  "str_nat n = (if n < 10 then [digit_char n] else str_nat (n div 10) @ [digit_char (n mod 10)])"
  by pat_completeness auto
termination
  by (relation "measure (\<lambda>n. n)") auto

declare str_nat.simps [simp del]

definition str_int :: "int \<Rightarrow> string" where
  "str_int i = (if i < 0 then CHR ''-'' # str_nat (nat (- i)) else str_nat (nat i))"

section \<open>Exceptions\<close>

text \<open>
  The exception classes the handlers tell apart: \<open>stripe.error.InvalidRequestError\<close>, a
  \<open>stripe.error.StripeError\<close> of any other class, and an \<open>Exception\<close> that is no
  \<open>StripeError\<close> (\<open>KeyError\<close>, \<open>ValueError\<close>, \<open>TypeError\<close>, \<open>OverflowError\<close>, an error of
  the chat platform's client). Each carries the text that \<open>str(e)\<close> returns.
\<close>

datatype exn = InvalidRequestError string | StripeError string | Exception string

fun str_exn :: "exn \<Rightarrow> string" where
  "str_exn (InvalidRequestError m) = m"
| "str_exn (StripeError m) = m"
| "str_exn (Exception m) = m"

text \<open>\<open>d[k]\<close> raises \<open>KeyError(k)\<close>, whose text is the key in quotes; \<open>d.get(k, other)\<close>.\<close>

definition getitem :: "'a dict \<Rightarrow> string \<Rightarrow> exn + 'a" where
  "getitem d k =
     (case map_of d k of None \<Rightarrow> Inl (Exception ([CHR 0x27] @ k @ [CHR 0x27])) | Some v \<Rightarrow> Inr v)"

definition get_default :: "'a dict \<Rightarrow> string \<Rightarrow> 'a \<Rightarrow> 'a" where
  "get_default d k other = (case map_of d k of None \<Rightarrow> other | Some v \<Rightarrow> v)"

text \<open>A value that is a \<open>str\<close> or \<open>None\<close>, as an f-string prints it.\<close>

definition format_str :: "string option \<Rightarrow> string" where
  "format_str v = (case v of None \<Rightarrow> ''None'' | Some s \<Rightarrow> s)"

subsection \<open>\<open>int(s)\<close>\<close>

definition is_digit :: "char \<Rightarrow> bool" where
  "is_digit c = (48 \<le> (of_char c :: nat) \<and> (of_char c :: nat) \<le> 57)"

definition digit_value :: "char \<Rightarrow> nat" where
  "digit_value c = (of_char c :: nat) - 48"

text \<open>The digits after a first digit: single underscores may separate digits.\<close>

fun digits_from :: "nat \<Rightarrow> string \<Rightarrow> nat option" where
  "digits_from acc [] = Some acc"
| "digits_from acc [c] = (if is_digit c then Some (10 * acc + digit_value c) else None)"
| "digits_from acc (c # d # cs) =
     (if is_digit c then digits_from (10 * acc + digit_value c) (d # cs)
      else if c = CHR ''_'' \<and> is_digit d then digits_from (10 * acc + digit_value d) cs
      else None)"

definition unsigned :: "string \<Rightarrow> nat option" where
  "unsigned s =
     (case s of [] \<Rightarrow> None
      | c # cs \<Rightarrow> if is_digit c then digits_from (digit_value c) cs else None)"

text \<open>
  The integer a decimal literal denotes: whitespace around it is dropped, one sign may
  lead. \<open>None\<close> where \<open>int\<close> raises \<open>ValueError\<close>.
\<close>

definition int_of_str :: "string \<Rightarrow> int option" where
  "int_of_str s =
     (case strip s of [] \<Rightarrow> None
      | c # cs \<Rightarrow>
          if c = CHR ''-'' then map_option (\<lambda>n. - int n) (unsigned cs)
          else if c = CHR ''+'' then map_option int (unsigned cs)
          else map_option int (unsigned (c # cs)))"

text \<open>
  \<open>int(v)\<close> for a value that is a \<open>str\<close> or \<open>None\<close>. An ASCII text of at most 4300
  characters is read as above. What the interpreter does with any other text (decimal
  digits of other scripts, its limit on the number of digits) is the parameter
  \<open>otherwise\<close>, and the text of the \<open>ValueError\<close> or \<open>TypeError\<close> it raises is the
  parameter \<open>error_text\<close>.
\<close>

definition py_int ::
    "(string option \<Rightarrow> string) \<Rightarrow> (string \<Rightarrow> int option) \<Rightarrow> string option \<Rightarrow> exn + int" where
  "py_int error_text otherwise v =
     (case v of None \<Rightarrow> Inl (Exception (error_text None))
      | Some s \<Rightarrow>
          (case (if ascii s \<and> length s \<le> 4300 then int_of_str s else otherwise s) of
             None \<Rightarrow> Inl (Exception (error_text (Some s)))
           | Some n \<Rightarrow> Inr n))"

subsection \<open>\<open>a / b\<close> on integers and the format \<open>.2f\<close>\<close>

text \<open>
  A finite \<open>float\<close> is a binary64 number: its value is \<open>mantissa * 2 ^ exponent\<close>.
  True division of two integers returns the binary64 number nearest to the quotient,
  ties to the even mantissa, and raises \<open>OverflowError\<close> when that is 2^1024 or more.
  Quotients below 2^-1022 (subnormal numbers) do not arise from a division by 100 and
  are not modelled.
\<close>

record pyfloat =
  mantissa :: int
  exponent :: int

text \<open>The integer nearest to \<open>a / b\<close>, ties to even, for \<open>0 \<le> a\<close> and \<open>0 < b\<close>.\<close>

definition round_half_even :: "int \<Rightarrow> int \<Rightarrow> int" where
  "round_half_even a b =
     (let q = a div b; r = a mod b
      in if 2 * r < b then q else if b < 2 * r then q + 1 else if even q then q else q + 1)"

text \<open>The \<open>l\<close> with \<open>2 ^ l \<le> a / b < 2 ^ (l + 1)\<close>, for \<open>0 < a\<close> and \<open>0 < b\<close>.\<close>

definition floor_log2 :: "int \<Rightarrow> int \<Rightarrow> int" where
  "floor_log2 a b =
     (let k = bitlen a - bitlen b
      in if (if 0 \<le> k then b * 2 ^ nat k \<le> a else b \<le> a * 2 ^ nat (- k)) then k else k - 1)"

definition nearest_float :: "int \<Rightarrow> int \<Rightarrow> pyfloat" where
  "nearest_float a b =
     (let e = floor_log2 a b - 52
      in \<lparr>mantissa = (if 0 \<le> e then round_half_even a (b * 2 ^ nat e)
                       else round_half_even (a * 2 ^ nat (- e)) b),
          exponent = e\<rparr>)"

definition truediv :: "int \<Rightarrow> int \<Rightarrow> exn + pyfloat" where
  "truediv a b =
     (if b = 0 then Inl (Exception ''division by zero'')
      else if a = 0 then Inr \<lparr>mantissa = 0, exponent = 0\<rparr>
      else let x = nearest_float \<bar>a\<bar> \<bar>b\<bar>
           in if 1024 < bitlen (mantissa x) + exponent x
              then Inl (Exception ''integer division result too large for a float'')
              else Inr (x\<lparr>mantissa := sgn a * sgn b * mantissa x\<rparr>))"

text \<open>
  \<open>f"{x:.2f}"\<close>: the exact value of the float, rounded to hundredths with ties to even,
  printed with the integer part, a point and two digits.
\<close>

definition format_2f :: "pyfloat \<Rightarrow> string" where
  "format_2f x =
     (let m = \<bar>mantissa x\<bar>; e = exponent x;
          h = (if 0 \<le> e then m * 2 ^ nat e * 100 else round_half_even (m * 100) (2 ^ nat (- e)))
      in (if mantissa x < 0 then ''-'' else '''') @ str_nat (nat (h div 100)) @ ''.''
           @ [digit_char (nat (h mod 100) div 10), digit_char (nat (h mod 100) mod 10)])"

section \<open>The chat platform and the payment processor\<close>

text \<open>Block Kit messages, as far as the handlers build them.\<close>

datatype text_object = Mrkdwn string | Plain_text string

datatype block =
    Header text_object
  | Section text_object
  | Section_fields "text_object list"
  | Divider
  | Context "text_object list"

text \<open>
  The argument of \<open>respond\<close>; \<open>replace_original\<close> is \<open>None\<close> where the dictionary has
  no such key.
\<close>

record response =
  response_type :: string
  replace_original :: "bool option"
  blocks :: "block list"

text \<open>The keyword arguments of \<open>client.chat_postMessage\<close>; \<open>blocks\<close> may be left out.\<close>

record message =
  channel :: string
  message_text :: string
  message_blocks :: "block list option"

text \<open>The keyword arguments of \<open>stripe.Refund.create\<close>, in the order written.\<close>

datatype param = Str "string option" | Integer int | Metadata "string option dict"

text \<open>The attributes of the refund object that the handlers read.\<close>

record refund =
  refund_id :: string
  amount :: int
  currency :: string
  status :: string
  created :: int

text \<open>Every call that leaves the process, in the order made.\<close>

datatype call =
    Ack
  | Respond response
  | Charge_retrieve string
  | Refund_create "param dict"
  | Chat_postMessage message

text \<open>
  The world outside: what each call returns or raises, the two parameters of \<open>int\<close>,
  and the processor's secret key read from the environment at start-up
  (\<open>stripe.api_key\<close>). Within one run no call is made twice with the same arguments, so
  a function of the arguments describes any behaviour of the services.
\<close>

record env =
  ack_result :: "exn + unit"
  respond_result :: "response \<Rightarrow> exn + unit"
  chat_postMessage_result :: "message \<Rightarrow> exn + unit"
  Charge_retrieve_result :: "string \<Rightarrow> exn + unit"
  Refund_create_result :: "param dict \<Rightarrow> exn + refund"
  int_error_text :: "string option \<Rightarrow> string"
  int_otherwise :: "string \<Rightarrow> int option"
  api_key :: "string option"

section \<open>Computations: a result or an exception, and the calls made\<close>

type_synonym 'a comp = "(exn + 'a) \<times> call list"

definition pure :: "exn + 'a \<Rightarrow> 'a comp" where
  "pure r = (r, [])"

definition perform :: "call \<Rightarrow> exn + 'a \<Rightarrow> 'a comp" where
  "perform c r = (r, [c])"

definition and_then :: "'a comp \<Rightarrow> ('a \<Rightarrow> 'b comp) \<Rightarrow> 'b comp" where
  "and_then m f =
     (case m of
        (Inl e, t) \<Rightarrow> (Inl e, t)
      | (Inr x, t) \<Rightarrow> (case f x of (r, t') \<Rightarrow> (r, t @ t')))"

definition try_except :: "'a comp \<Rightarrow> (exn \<Rightarrow> 'a comp) \<Rightarrow> 'a comp" where
  "try_except m h =
     (case m of
        (Inl e, t) \<Rightarrow> (case h e of (r, t') \<Rightarrow> (r, t @ t'))
      | (Inr x, t) \<Rightarrow> (Inr x, t))"

definition ack :: "env \<Rightarrow> unit comp" where
  "ack env = perform Ack (ack_result env)"

definition respond :: "env \<Rightarrow> response \<Rightarrow> unit comp" where
  "respond env r = perform (Respond r) (respond_result env r)"

definition chat_postMessage :: "env \<Rightarrow> message \<Rightarrow> unit comp" where
  "chat_postMessage env m = perform (Chat_postMessage m) (chat_postMessage_result env m)"

definition Charge_retrieve_call :: "env \<Rightarrow> string \<Rightarrow> unit comp" where
  "Charge_retrieve_call env charge_id =
     perform (Charge_retrieve charge_id) (Charge_retrieve_result env charge_id)"

definition Refund_create_call :: "env \<Rightarrow> param dict \<Rightarrow> refund comp" where
  "Refund_create_call env params = perform (Refund_create params) (Refund_create_result env params)"

section \<open>The texts\<close>

definition cross_mark :: string where
  "cross_mark = [CHR 0xE2, CHR 0x9D, CHR 0x8C]"

definition hourglass :: string where
  "hourglass = [CHR 0xE2, CHR 0x8F, CHR 0xB3]"

definition money_bag :: string where
  "money_bag = [CHR 0xF0, CHR 0x9F, CHR 0x92, CHR 0xB0]"

definition test_tube :: string where
  "test_tube = [CHR 0xF0, CHR 0x9F, CHR 0xA7, CHR 0xAA]"

definition check_mark :: string where
  "check_mark = [CHR 0xE2, CHR 0x9C, CHR 0x85]"

definition newline :: string where
  "newline = [CHR 0x0A]"

definition usage :: string where
  "usage = ''Usage: `/refund ch_xxxxxxxxxxxxx`''"

definition ephemeral :: "string \<Rightarrow> response" where
  "ephemeral t =
     \<lparr>response_type = ''ephemeral'', replace_original = None, blocks = [Section (Mrkdwn t)]\<rparr>"

definition ephemeral_replacing :: "string \<Rightarrow> response" where
  "ephemeral_replacing t =
     \<lparr>response_type = ''ephemeral'', replace_original = Some True,
      blocks = [Section (Mrkdwn t)]\<rparr>"

definition processing :: response where
  "processing =
     \<lparr>response_type = ''in_channel'', replace_original = None,
      blocks = [Section (Mrkdwn (hourglass @ '' Processing refund...''))]\<rparr>"

section \<open>The handler of the command \<open>/refund\<close>\<close>

text \<open>
  The command payload is the dictionary of the form fields the platform sends, all of
  them strings.
\<close>

definition receipt_blocks :: "refund \<Rightarrow> pyfloat \<Rightarrow> string \<Rightarrow> string \<Rightarrow> block list" where
  "receipt_blocks refund refund_amount currency_code charge_id =
     [Header (Plain_text (money_bag @ '' Refund Receipt'')),
      Section_fields
        [Mrkdwn (''*Refund ID:*'' @ newline @ refund_id refund),
         Mrkdwn (''*Amount:*'' @ newline @ ''$'' @ format_2f refund_amount @ '' '' @ currency_code),
         Mrkdwn (''*Status:*'' @ newline @ upper (status refund)),
         Mrkdwn (''*Original Charge:*'' @ newline @ charge_id),
         Mrkdwn (''*Reason:*'' @ newline @ ''Requested by customer''),
         Mrkdwn (''*Timestamp:*'' @ newline @ ''<!date^'' @ str_int (created refund)
                  @ ''^{date_short} {time}|'' @ str_int (created refund) @ ''>'')],
      Divider,
      Context
        [Mrkdwn (test_tube @ '' *TEST MODE* - Refund will appear on the original payment method within 5-10 business days.'')]]"

text \<open>The body of \<open>try\<close>.\<close>

definition refund_command_try :: "env \<Rightarrow> string dict \<Rightarrow> string \<Rightarrow> unit comp" where
  "refund_command_try env command charge_id =
     and_then (Charge_retrieve_call env charge_id) (\<lambda>charge.
     and_then (pure (getitem command ''user_id'')) (\<lambda>user_id.
     and_then (pure (getitem command ''channel_id'')) (\<lambda>channel_id.
     and_then (Refund_create_call env
                 [(''charge'', Str (Some charge_id)),
                  (''reason'', Str (Some ''requested_by_customer'')),
                  (''metadata'', Metadata [(''slack_user_id'', Some user_id),
                                           (''slack_channel_id'', Some channel_id)])]) (\<lambda>refund.
     and_then (pure (truediv (amount refund) 100)) (\<lambda>refund_amount.
     respond env
       \<lparr>response_type = ''in_channel'', replace_original = Some True,
        blocks = receipt_blocks refund refund_amount (upper (currency refund)) charge_id\<rparr>)))))"

text \<open>The three \<open>except\<close> clauses, in their order.\<close>

fun refund_command_except :: "env \<Rightarrow> string \<Rightarrow> exn \<Rightarrow> unit comp" where
  "refund_command_except env charge_id (InvalidRequestError error_msg) =
     respond env (ephemeral_replacing
       (if str_in ''No such charge'' error_msg
        then cross_mark @ '' Charge ID `'' @ charge_id
               @ ''` not found. Please verify the charge ID is correct.''
        else if str_in ''already been refunded'' error_msg
        then cross_mark @ '' This charge has already been fully refunded.''
        else cross_mark @ '' Invalid request: '' @ error_msg))"
| "refund_command_except env charge_id (StripeError m) =
     respond env (ephemeral_replacing (cross_mark @ '' Stripe error: '' @ m))"
| "refund_command_except env charge_id (Exception m) =
     respond env (ephemeral_replacing
       (cross_mark @ '' An error occurred while processing the refund: '' @ m))"

definition refund_command :: "env \<Rightarrow> string dict \<Rightarrow> unit comp" where
  "refund_command env command =
     and_then (ack env) (\<lambda>_.
       let charge_id = strip (get_default command ''text'' '''')
       in if charge_id = []
          then respond env (ephemeral
                 (cross_mark @ '' Please provide a charge ID.'' @ newline @ newline @ usage))
          else if \<not> startswith charge_id ''ch_''
          then respond env (ephemeral
                 (cross_mark @ '' Invalid charge ID format. Charge IDs must start with `ch_`.''
                    @ newline @ newline @ usage))
          else and_then (respond env processing) (\<lambda>_.
                 try_except (refund_command_try env command charge_id)
                            (refund_command_except env charge_id)))"

section \<open>The handler of the submitted \<open>refund_modal\<close>\<close>

text \<open>
  \<open>body\<close> is a dictionary of dictionaries of strings (\<open>body["user"]["id"]\<close>,
  \<open>body["channel"]["id"]\<close>); \<open>view\<close> is nested five deep down to the value of an input,
  which is a string or \<open>None\<close>. A key may be missing at every level.
\<close>

type_synonym body = "string dict dict"
type_synonym view = "string option dict dict dict dict dict"

definition then_getitem :: "exn + 'a dict \<Rightarrow> string \<Rightarrow> exn + 'a" where
  "then_getitem r k = (case r of Inl e \<Rightarrow> Inl e | Inr d \<Rightarrow> getitem d k)"

text \<open>\<open>view["state"]["values"][block_id][action_id]["value"]\<close>\<close>

definition state_value :: "view \<Rightarrow> string \<Rightarrow> string \<Rightarrow> exn + string option" where
  "state_value view block_id action_id =
     then_getitem (then_getitem (then_getitem (then_getitem
       (getitem view ''state'') ''values'') block_id) action_id) ''value''"

text \<open>\<open>if body.get("channel")\<close>: the key is there and its dictionary is not empty.\<close>

definition has_channel :: "body \<Rightarrow> bool" where
  "has_channel body = (case map_of body ''channel'' of None \<Rightarrow> False | Some d \<Rightarrow> d \<noteq> [])"

definition modal_receipt_blocks ::
    "refund \<Rightarrow> pyfloat \<Rightarrow> string option \<Rightarrow> string option \<Rightarrow> block list" where
  "modal_receipt_blocks refund refund_amount payment_intent_id reason =
     [Section (Mrkdwn (check_mark @ '' *Refund Processed Successfully*'')),
      Section_fields
        [Mrkdwn (''*Refund ID:*'' @ newline @ refund_id refund),
         Mrkdwn (''*Amount:*'' @ newline @ ''$'' @ format_2f refund_amount),
         Mrkdwn (''*Status:*'' @ newline @ title (status refund)),
         Mrkdwn (''*Payment Intent:*'' @ newline @ format_str payment_intent_id)],
      Section (Mrkdwn (''*Reason:* '' @ format_str reason)),
      Context
        [Mrkdwn ''Refund will appear on your original payment method within 5-10 business days.'']]"

text \<open>The message to the channel the submission came from.\<close>

definition announcement :: "string \<Rightarrow> pyfloat \<Rightarrow> string \<Rightarrow> message" where
  "announcement channel_id refund_amount user_id =
     \<lparr>channel = channel_id,
      message_text = ''Refund of $'' @ format_2f refund_amount @ '' has been processed for <@''
                       @ user_id @ ''>'',
      message_blocks = Some
        [Section (Mrkdwn (check_mark @ '' Refund of *$'' @ format_2f refund_amount
                            @ ''* processed for <@'' @ user_id @ ''>''))]\<rparr>"

text \<open>The body of \<open>try\<close>.\<close>

definition handle_refund_submission_try ::
    "env \<Rightarrow> body \<Rightarrow> string \<Rightarrow> string option \<Rightarrow> string option \<Rightarrow> string option \<Rightarrow> unit comp" where
  "handle_refund_submission_try env body user_id payment_intent_id amount_value reason =
     and_then (pure (py_int (int_error_text env) (int_otherwise env) amount_value)) (\<lambda>amount_int.
     and_then (Refund_create_call env
                 [(''payment_intent'', Str payment_intent_id),
                  (''amount'', Integer amount_int),
                  (''reason'', Str (Some ''requested_by_customer'')),
                  (''metadata'', Metadata [(''slack_user_id'', Some user_id),
                                           (''reason'', reason)])]) (\<lambda>refund.
     and_then (pure (truediv (refund.amount refund) 100)) (\<lambda>refund_amount.
     and_then (chat_postMessage env
                 \<lparr>channel = user_id,
                  message_text = ''Refund processed: $'' @ format_2f refund_amount,
                  message_blocks =
                    Some (modal_receipt_blocks refund refund_amount payment_intent_id reason)\<rparr>) (\<lambda>_.
     if has_channel body
     then and_then (pure (then_getitem (getitem body ''channel'') ''id'')) (\<lambda>channel_id.
            chat_postMessage env (announcement channel_id refund_amount user_id))
     else pure (Inr ())))))"

text \<open>\<open>isinstance(e, stripe.error.StripeError)\<close>\<close>

fun is_StripeError :: "exn \<Rightarrow> bool" where
  "is_StripeError (InvalidRequestError m) = True"
| "is_StripeError (StripeError m) = True"
| "is_StripeError (Exception m) = False"

text \<open>The two \<open>except\<close> clauses, in their order.\<close>

definition handle_refund_submission_except :: "env \<Rightarrow> string \<Rightarrow> exn \<Rightarrow> unit comp" where
  "handle_refund_submission_except env user_id e =
     (if is_StripeError e
      then chat_postMessage env
             \<lparr>channel = user_id,
              message_text = cross_mark @ '' Refund failed: '' @ str_exn e,
              message_blocks = None\<rparr>
      else chat_postMessage env
             \<lparr>channel = user_id,
              message_text = cross_mark @ '' An error occurred while processing the refund: ''
                               @ str_exn e,
              message_blocks = None\<rparr>)"

definition handle_refund_submission :: "env \<Rightarrow> body \<Rightarrow> view \<Rightarrow> unit comp" where
  "handle_refund_submission env body view =
     and_then (ack env) (\<lambda>_.
     and_then (pure (then_getitem (getitem body ''user'') ''id'')) (\<lambda>user_id.
     and_then (pure (state_value view ''payment_intent_input'' ''payment_intent_id''))
       (\<lambda>payment_intent_id.
     and_then (pure (state_value view ''amount_input'' ''amount'')) (\<lambda>amount_value.
     and_then (pure (state_value view ''reason_input'' ''reason'')) (\<lambda>reason.
       try_except
         (handle_refund_submission_try env body user_id payment_intent_id amount_value reason)
         (handle_refund_submission_except env user_id))))))"

section \<open>Reading a run\<close>

abbreviation result :: "'a comp \<Rightarrow> exn + 'a" where
  "result m \<equiv> fst m"

abbreviation calls :: "'a comp \<Rightarrow> call list" where
  "calls m \<equiv> snd m"

fun processor_call :: "call \<Rightarrow> bool" where
  "processor_call (Charge_retrieve c) = True"
| "processor_call (Refund_create p) = True"
| "processor_call c = False"

fun refund_creation :: "call \<Rightarrow> bool" where
  "refund_creation (Refund_create p) = True"
| "refund_creation c = False"

text \<open>The charge id the handler of \<open>/refund\<close> works with.\<close>

definition charge_id_of :: "string dict \<Rightarrow> string" where
  "charge_id_of command = strip (get_default command ''text'' '''')"

text \<open>The texts a call shows to its readers.\<close>

fun text_of :: "text_object \<Rightarrow> string" where
  "text_of (Mrkdwn t) = t"
| "text_of (Plain_text t) = t"

fun block_texts :: "block \<Rightarrow> string list" where
  "block_texts (Header t) = [text_of t]"
| "block_texts (Section t) = [text_of t]"
| "block_texts (Section_fields ts) = map text_of ts"
| "block_texts Divider = []"
| "block_texts (Context ts) = map text_of ts"

fun call_texts :: "call \<Rightarrow> string list" where
  "call_texts (Respond r) = concat (map block_texts (blocks r))"
| "call_texts (Chat_postMessage m) =
     message_text m # (case message_blocks m of None \<Rightarrow> [] | Some bs \<Rightarrow> concat (map block_texts bs))"
| "call_texts c = []"

text \<open>Every error text of the handlers starts with the cross mark.\<close>

definition carries_error :: "call \<Rightarrow> bool" where
  "carries_error c = list_ex (\<lambda>t. startswith t cross_mark) (call_texts c)"

text \<open>A response only its requester sees, and a message posted to a given user.\<close>

fun ephemeral_response :: "call \<Rightarrow> bool" where
  "ephemeral_response (Respond r) = (response_type r = ''ephemeral'')"
| "ephemeral_response c = False"

fun direct_message_to :: "string \<Rightarrow> call \<Rightarrow> bool" where
  "direct_message_to user_id (Chat_postMessage m) = (channel m = user_id)"
| "direct_message_to user_id c = False"

fun replacing_response :: "call \<Rightarrow> bool" where
  "replacing_response (Respond r) = (replace_original r = Some True)"
| "replacing_response c = False"

fun is_response :: "call \<Rightarrow> bool" where
  "is_response (Respond r) = True"
| "is_response c = False"

text \<open>The messages posted in a run, in their order.\<close>

fun message_of :: "call \<Rightarrow> message option" where
  "message_of (Chat_postMessage m) = Some m"
| "message_of c = None"

definition messages :: "call list \<Rightarrow> message list" where
  "messages cs = List.map_filter message_of cs"

text \<open>The fields of a submission, read before the \<open>try\<close>.\<close>

definition user_id_of :: "body \<Rightarrow> exn + string" where
  "user_id_of body = then_getitem (getitem body ''user'') ''id''"

definition channel_id_of :: "body \<Rightarrow> exn + string" where
  "channel_id_of body = then_getitem (getitem body ''channel'') ''id''"

definition submission_fields ::
    "body \<Rightarrow> view \<Rightarrow> exn + string \<times> string option \<times> string option \<times> string option" where
  "submission_fields body view =
     (case user_id_of body of
        Inl e \<Rightarrow> Inl e
      | Inr user_id \<Rightarrow>
          (case state_value view ''payment_intent_input'' ''payment_intent_id'' of
             Inl e \<Rightarrow> Inl e
           | Inr payment_intent_id \<Rightarrow>
               (case state_value view ''amount_input'' ''amount'' of
                  Inl e \<Rightarrow> Inl e
                | Inr amount_value \<Rightarrow>
                    (case state_value view ''reason_input'' ''reason'' of
                       Inl e \<Rightarrow> Inl e
                     | Inr reason \<Rightarrow> Inr (user_id, payment_intent_id, amount_value, reason)))))"

text \<open>The text of the message that reports an exception of the submission.\<close>

definition submission_error_text :: "exn \<Rightarrow> string" where
  "submission_error_text e =
     cross_mark
       @ (if is_StripeError e then '' Refund failed: ''
          else '' An error occurred while processing the refund: '')
       @ str_exn e"

section \<open>Notions of the specification\<close>

text \<open>
  The pattern \<open>^ch_.+\<close> of the specification: the prefix and at least one more
  character that is no line feed.
\<close>

definition matches_ch_pattern :: "string \<Rightarrow> bool" where
  "matches_ch_pattern s =
     (case s of
        c1 # c2 # c3 # c4 # cs \<Rightarrow> [c1, c2, c3] = ''ch_'' \<and> c4 \<noteq> CHR 0x0A
      | _ \<Rightarrow> False)"

text \<open>
  The categories the specification gives to a failed refund, and its mapping of an
  exception to one of them by class and by the content of the message.
\<close>

datatype category = NotFound | AlreadyRefunded | InvalidRequest | ProcessorError | InternalError

fun category_of :: "exn \<Rightarrow> category" where
  "category_of (InvalidRequestError m) =
     (if str_in ''No such charge'' m then NotFound
      else if str_in ''already been refunded'' m then AlreadyRefunded
      else InvalidRequest)"
| "category_of (StripeError m) = ProcessorError"
| "category_of (Exception m) = InternalError"

text \<open>The line with which the handler of \<open>/refund\<close> words each category.\<close>

fun category_text :: "category \<Rightarrow> string \<Rightarrow> string \<Rightarrow> string" where
  "category_text NotFound charge_id detail =
     cross_mark @ '' Charge ID `'' @ charge_id
       @ ''` not found. Please verify the charge ID is correct.''"
| "category_text AlreadyRefunded charge_id detail =
     cross_mark @ '' This charge has already been fully refunded.''"
| "category_text InvalidRequest charge_id detail = cross_mark @ '' Invalid request: '' @ detail"
| "category_text ProcessorError charge_id detail = cross_mark @ '' Stripe error: '' @ detail"
| "category_text InternalError charge_id detail =
     cross_mark @ '' An error occurred while processing the refund: '' @ detail"

text \<open>
  An amount of minor units divided by 100, written with exactly two decimal places.
\<close>

definition two_decimals :: "int \<Rightarrow> string" where
  "two_decimals n =
     (if n < 0 then ''-'' else '''') @ str_nat (nat (\<bar>n\<bar> div 100)) @ ''.''
       @ [digit_char (nat (\<bar>n\<bar> mod 100) div 10), digit_char (nat (\<bar>n\<bar> mod 100) mod 10)]"

section \<open>Example inputs\<close>

definition example_refund :: refund where
  "example_refund =
     \<lparr>refund_id = ''re_1'', amount = 1999, currency = ''usd'', status = ''succeeded'',
      created = 1700000000\<rparr>"

text \<open>Every service answers; the processor runs with a live key.\<close>

definition example_env :: env where
  "example_env =
     \<lparr>ack_result = Inr (), respond_result = (\<lambda>r. Inr ()),
      chat_postMessage_result = (\<lambda>m. Inr ()),
      Charge_retrieve_result = (\<lambda>c. Inr ()),
      Refund_create_result = (\<lambda>p. Inr example_refund),
      int_error_text = (\<lambda>v. ''invalid literal for int() with base 10''),
      int_otherwise = (\<lambda>s. None),
      api_key = Some ''sk_live_example''\<rparr>"

text \<open>The processor refuses to create the refund.\<close>

definition failing_env :: "exn \<Rightarrow> env" where
  "failing_env e = example_env\<lparr>Refund_create_result := (\<lambda>p. Inl e)\<rparr>"

definition example_command :: "string \<Rightarrow> string dict" where
  "example_command t = [(''text'', t), (''user_id'', ''U1''), (''channel_id'', ''C1'')]"

definition example_body :: body where
  "example_body = [(''user'', [(''id'', ''U1'')]), (''channel'', [(''id'', ''C1'')])]"

definition example_view :: "string \<Rightarrow> string \<Rightarrow> string \<Rightarrow> view" where
  "example_view payment_intent_id amount_value reason =
     [(''state'',
       [(''values'',
         [(''payment_intent_input'',
             [(''payment_intent_id'',
                 [(''type'', Some ''plain_text_input''), (''value'', Some payment_intent_id)])]),
          (''amount_input'',
             [(''amount'', [(''type'', Some ''plain_text_input''), (''value'', Some amount_value)])]),
          (''reason_input'',
             [(''reason'', [(''type'', Some ''plain_text_input''), (''value'', Some reason)])])])])]"


section \<open>Lemmas about runs\<close>

lemma result_and_then:
  "result (and_then m f) = (case result m of Inl e \<Rightarrow> Inl e | Inr x \<Rightarrow> result (f x))"
  by (auto simp: and_then_def split: prod.splits sum.splits)

lemma calls_and_then:
  "calls (and_then m f) = (case result m of Inl e \<Rightarrow> calls m | Inr x \<Rightarrow> calls m @ calls (f x))"
  by (auto simp: and_then_def split: prod.splits sum.splits)

lemma result_try_except:
  "result (try_except m h) = (case result m of Inl e \<Rightarrow> result (h e) | Inr x \<Rightarrow> Inr x)"
  by (auto simp: try_except_def split: prod.splits sum.splits)

lemma calls_try_except:
  "calls (try_except m h) = (case result m of Inl e \<Rightarrow> calls m @ calls (h e) | Inr x \<Rightarrow> calls m)"
  by (auto simp: try_except_def split: prod.splits sum.splits)

lemmas run_simps =
  result_and_then calls_and_then result_try_except calls_try_except
  pure_def perform_def ack_def respond_def chat_postMessage_def
  Charge_retrieve_call_def Refund_create_call_def

subsection \<open>The runs of the handler of \<open>/refund\<close>\<close>

lemma calls_refund_command_try:
  "\<exists>rest. calls (refund_command_try env command c) = Charge_retrieve c # rest
     \<and> (list_ex refund_creation rest \<longrightarrow> Charge_retrieve_result env c = Inr ())"
  by (auto simp: refund_command_try_def run_simps split: sum.splits)

lemma calls_refund_command_except:
  "\<not> list_ex processor_call (calls (refund_command_except env c e))"
  by (cases e) (auto simp: run_simps)

lemma calls_refund_command:
  "calls (refund_command env command) =
     (case ack_result env of
        Inl e \<Rightarrow> [Ack]
      | Inr u \<Rightarrow>
          if charge_id_of command = []
          then [Ack, Respond (ephemeral
                  (cross_mark @ '' Please provide a charge ID.'' @ newline @ newline @ usage))]
          else if \<not> startswith (charge_id_of command) ''ch_''
          then [Ack, Respond (ephemeral
                  (cross_mark @ '' Invalid charge ID format. Charge IDs must start with `ch_`.''
                     @ newline @ newline @ usage))]
          else (case respond_result env processing of
                  Inl e \<Rightarrow> [Ack, Respond processing]
                | Inr u \<Rightarrow>
                    [Ack, Respond processing]
                      @ calls (refund_command_try env command (charge_id_of command))
                      @ (case result (refund_command_try env command (charge_id_of command)) of
                           Inl e \<Rightarrow> calls (refund_command_except env (charge_id_of command) e)
                         | Inr u \<Rightarrow> [])))"
  by (simp add: refund_command_def run_simps Let_def charge_id_of_def split: sum.splits)

subsection \<open>The example inputs, evaluated\<close>

lemma example_charge_id: "charge_id_of (example_command '' ch_abc123 '') = ''ch_abc123''"
  by code_simp

lemma example_truediv:
  "truediv (amount example_refund) 100 = Inr \<lparr>mantissa = 5626684784446013, exponent = - 48\<rparr>"
  by code_simp

lemma example_command_items:
  "getitem (example_command t) ''user_id'' = Inr ''U1''"
  "getitem (example_command t) ''channel_id'' = Inr ''C1''"
  by (simp_all add: getitem_def example_command_def)

lemma str_in_sublist: "str_in needle s = sublist needle s"
  by (induction s) (simp_all add: sublist_Cons_right)

lemma str_in_append: "str_in needle (before @ needle @ after)"
  by (simp add: str_in_sublist)


lemma refund_command_except_category:
  "refund_command_except env c e =
     respond env (ephemeral_replacing (category_text (category_of e) c (str_exn e)))"
  by (cases e) simp_all

lemma calls_refund_command_except_eq:
  "calls (refund_command_except env c e) =
     [Respond (ephemeral_replacing (category_text (category_of e) c (str_exn e)))]"
  by (simp add: refund_command_except_category run_simps)


lemma category_text_error: "startswith (category_text k c d) cross_mark"
  by (cases k) (simp_all add: startswith_def)

lemma example_empty_charge_id: "charge_id_of (example_command ''   '') = []"
  by code_simp

lemma example_bare_prefix: "charge_id_of (example_command ''ch_'') = ''ch_''"
  by code_simp

subsection \<open>The runs of the handler of the submission\<close>

lemma handle_refund_submission_fields:
  "handle_refund_submission env body view =
     and_then (ack env) (\<lambda>u.
       case submission_fields body view of
         Inl e \<Rightarrow> (Inl e, [])
       | Inr (user_id, payment_intent_id, amount_value, reason) \<Rightarrow>
           try_except
             (handle_refund_submission_try env body user_id payment_intent_id amount_value reason)
             (handle_refund_submission_except env user_id))"
  by (simp add: handle_refund_submission_def submission_fields_def user_id_of_def and_then_def
        pure_def split: sum.splits prod.splits)

lemma handle_refund_submission_except_eq:
  "handle_refund_submission_except env user_id e =
     chat_postMessage env
       \<lparr>channel = user_id, message_text = submission_error_text e, message_blocks = None\<rparr>"
  by (simp add: handle_refund_submission_except_def submission_error_text_def)

lemma calls_handle_refund_submission:
  "submission_fields body view = Inr (user_id, p, a, r) \<Longrightarrow>
   calls (handle_refund_submission env body view) =
     (case ack_result env of
        Inl e \<Rightarrow> [Ack]
      | Inr u \<Rightarrow>
          [Ack] @ calls (handle_refund_submission_try env body user_id p a r)
            @ (case result (handle_refund_submission_try env body user_id p a r) of
                 Inl e \<Rightarrow>
                   [Chat_postMessage
                      \<lparr>channel = user_id, message_text = submission_error_text e,
                       message_blocks = None\<rparr>]
               | Inr u \<Rightarrow> []))"
  by (simp add: handle_refund_submission_fields handle_refund_submission_except_eq run_simps
        split: sum.splits)

lemma result_handle_refund_submission:
  "submission_fields body view = Inr (user_id, p, a, r) \<Longrightarrow>
   result (handle_refund_submission env body view) =
     (case ack_result env of
        Inl e \<Rightarrow> Inl e
      | Inr u \<Rightarrow>
          (case result (handle_refund_submission_try env body user_id p a r) of
             Inl e \<Rightarrow>
               chat_postMessage_result env
                 \<lparr>channel = user_id, message_text = submission_error_text e,
                  message_blocks = None\<rparr>
           | Inr u \<Rightarrow> Inr ()))"
  by (simp add: handle_refund_submission_fields handle_refund_submission_except_eq run_simps
        split: sum.splits)

lemma handle_refund_submission_no_fields:
  "submission_fields body view = Inl e \<Longrightarrow>
   handle_refund_submission env body view =
     (case ack_result env of Inl e' \<Rightarrow> (Inl e', [Ack]) | Inr u \<Rightarrow> (Inl e, [Ack]))"
  by (simp add: handle_refund_submission_fields and_then_def ack_def perform_def
        split: sum.splits)



lemma submission_error_text_error: "startswith (submission_error_text e) cross_mark"
  by (simp add: submission_error_text_def startswith_def)

lemma example_fields:
  "submission_fields example_body (example_view p a r) = Inr (''U1'', Some p, Some a, Some r)"
  by (simp add: submission_fields_def user_id_of_def state_value_def then_getitem_def getitem_def
        example_body_def example_view_def)

lemma example_env_results:
  "ack_result example_env = Inr ()"
  "respond_result example_env x = Inr ()"
  "chat_postMessage_result example_env m = Inr ()"
  "Charge_retrieve_result example_env c = Inr ()"
  "Refund_create_result example_env q = Inr example_refund"
  "ack_result (failing_env e) = Inr ()"
  "respond_result (failing_env e) x = Inr ()"
  "chat_postMessage_result (failing_env e) m = Inr ()"
  "Charge_retrieve_result (failing_env e) c = Inr ()"
  "Refund_create_result (failing_env e) q = Inl e"
  by (simp_all add: example_env_def failing_env_def)



subsection \<open>Which calls carry an error text\<close>

lemma try_carries_no_error:
  "\<not> list_ex carries_error (calls (refund_command_try env command c))"
  by (simp add: refund_command_try_def run_simps carries_error_def startswith_def
        receipt_blocks_def cross_mark_def money_bag_def test_tube_def split: sum.splits)

lemma submission_try_carries_no_error:
  "\<not> list_ex carries_error (calls (handle_refund_submission_try env body user_id p a r))"
  by (simp add: handle_refund_submission_try_def run_simps carries_error_def startswith_def
        modal_receipt_blocks_def announcement_def cross_mark_def check_mark_def
        split: sum.splits)

lemma processing_carries_no_error: "\<not> carries_error (Respond processing)"
  by (simp add: carries_error_def processing_def startswith_def cross_mark_def hourglass_def)

lemma ephemeral_is_ephemeral:
  "ephemeral_response (Respond (ephemeral t))"
  "ephemeral_response (Respond (ephemeral_replacing t))"
  by (simp_all add: ephemeral_def ephemeral_replacing_def)

lemma example_int_2500:
  "py_int (int_error_text (failing_env e)) (int_otherwise (failing_env e)) (Some ''2500'') = Inr 2500"
  "py_int (int_error_text example_env) (int_otherwise example_env) (Some ''2500'') = Inr 2500"
proof -
  have "ascii ''2500''" and "int_of_str ''2500'' = Some 2500" by code_simp+
  then show
    "py_int (int_error_text (failing_env e)) (int_otherwise (failing_env e)) (Some ''2500'') = Inr 2500"
    "py_int (int_error_text example_env) (int_otherwise example_env) (Some ''2500'') = Inr 2500"
    by (simp_all add: py_int_def example_env_def failing_env_def)
qed

lemma example_try_fails:
  "refund_command_try (failing_env e) (example_command t) c =
     (Inl e,
      [Charge_retrieve c,
       Refund_create
         [(''charge'', Str (Some c)), (''reason'', Str (Some ''requested_by_customer'')),
          (''metadata'', Metadata [(''slack_user_id'', Some ''U1''),
                                   (''slack_channel_id'', Some ''C1'')])]])"
  by (simp add: refund_command_try_def and_then_def run_simps example_command_items
        example_env_results)

lemma example_submission_try_fails:
  "handle_refund_submission_try (failing_env e) example_body ''U1'' (Some p) (Some ''2500'') (Some r) =
     (Inl e,
      [Refund_create
         [(''payment_intent'', Str (Some p)), (''amount'', Integer 2500),
          (''reason'', Str (Some ''requested_by_customer'')),
          (''metadata'', Metadata [(''slack_user_id'', Some ''U1''), (''reason'', Some r)])]])"
  by (simp add: handle_refund_submission_try_def and_then_def run_simps example_int_2500
        example_env_results)

subsection \<open>Division by 100 and the format \<open>.2f\<close> are exact below 2^52\<close>

lemma round_half_even_unique:
  fixes a b q :: int
  assumes "0 < b" and "2 * \<bar>a - b * q\<bar> < b"
  shows "round_half_even a b = q"
proof (cases "b * q \<le> a")
  case True
  define r where "r = a - b * q"
  have r: "a = b * q + r" "0 \<le> r" "r < b" "2 * r < b"
    using True assms by (auto simp: r_def)
  have "a div b = q" by (rule int_div_pos_eq [OF r(1) r(2) r(3)])
  moreover have "a mod b = r" by (rule int_mod_pos_eq [OF r(1) r(2) r(3)])
  ultimately show ?thesis using r by (simp add: round_half_even_def Let_def)
next
  case False
  define r where "r = a - b * (q - 1)"
  have "b * (q - 1) = b * q - b" by (simp add: algebra_simps)
  then have r: "a = b * (q - 1) + r" "0 \<le> r" "r < b" "b < 2 * r"
    using False assms by (auto simp: r_def)
  have "a div b = q - 1" by (rule int_div_pos_eq [OF r(1) r(2) r(3)])
  moreover have "a mod b = r" by (rule int_mod_pos_eq [OF r(1) r(2) r(3)])
  ultimately show ?thesis using r by (simp add: round_half_even_def Let_def)
qed

lemma round_half_even_near:
  fixes a b :: int
  assumes "0 < b"
  shows "2 * \<bar>b * round_half_even a b - a\<bar> \<le> b"
proof -
  define q where "q = a div b"
  define r where "r = a mod b"
  have a: "a = b * q + r" by (simp add: q_def r_def)
  have r: "0 \<le> r" "r < b" using assms by (simp_all add: r_def)
  have step: "b * (q + 1) = b * q + b" by (simp add: algebra_simps)
  have "round_half_even a b = q \<and> 2 * r \<le> b \<or> round_half_even a b = q + 1 \<and> b \<le> 2 * r"
    by (auto simp: round_half_even_def Let_def q_def r_def)
  then show ?thesis
    using a r step by auto
qed

lemma floor_log2_100_bounds:
  assumes "0 < a" and "a < 2 ^ 52"
  shows "- 7 \<le> floor_log2 a 100 \<and> floor_log2 a 100 \<le> 45"
proof -
  have hundred: "bitlen 100 = 7" by code_simp
  have "bitlen a \<noteq> 0" using assms(1) by (simp add: bitlen_eq_zero_iff)
  then have low: "1 \<le> bitlen a" using bitlen_nonneg [of a] by simp
  have high: "bitlen a \<le> 52" using assms(2) by (simp add: bitlen_le_iff_power)
  show ?thesis
    using low high by (auto simp: floor_log2_def Let_def hundred)
qed

lemma truediv_100_exact:
  assumes "\<bar>n\<bar> < 2 ^ 52"
  shows "\<exists>x. truediv n 100 = Inr x \<and> format_2f x = two_decimals n"
proof (cases "n = 0")
  case True
  then show ?thesis
    by (simp add: truediv_def format_2f_def two_decimals_def)
next
  case False
  define a where "a = \<bar>n\<bar>"
  have a: "0 < a" "a < 2 ^ 52" using False assms by (simp_all add: a_def)
  define e where "e = floor_log2 a 100 - 52"
  define s where "s = nat (- e)"
  have e: "- 59 \<le> e" "e \<le> - 7" using floor_log2_100_bounds [OF a] by (simp_all add: e_def)
  then have s: "7 \<le> s" "s \<le> 59" "e < 0" "\<not> 0 \<le> e" by (simp_all add: s_def)
  define m where "m = round_half_even (a * 2 ^ s) 100"
  have near: "2 * \<bar>100 * m - a * 2 ^ s\<bar> \<le> 100"
    unfolding m_def by (rule round_half_even_near) simp
  define t where "t = a * 2 ^ s"
  have near: "100 * m - t \<le> 50" "t - 100 * m \<le> 50"
    using near by (simp_all add: t_def abs_le_iff)
  have "(2::int) ^ 7 \<le> 2 ^ s" using s(1) by (intro power_increasing) simp_all
  then have big: "(128::int) \<le> 2 ^ s" by simp
  have "(2::int) ^ s \<le> t" using a(1) by (simp add: t_def)
  with big near have m_pos: "0 < m" by linarith
  have "(2::int) ^ s \<le> 2 ^ 59" using s(2) by (intro power_increasing) simp_all
  then have "t \<le> 2 ^ 52 * 2 ^ 59"
    unfolding t_def using a by (intro mult_mono) simp_all
  moreover have "(2::int) ^ 52 * 2 ^ 59 < 2 ^ 112" and "(50::int) \<le> 2 ^ 112" by simp_all
  ultimately have "m < 2 ^ 112" using near by linarith
  then have "bitlen m \<le> 112" by (simp add: bitlen_le_iff_power)
  with e have fits: "\<not> 1024 < bitlen m + e" by simp
  have x: "nearest_float a 100 = \<lparr>mantissa = m, exponent = e\<rparr>"
    using s by (simp add: nearest_float_def Let_def e_def [symmetric] m_def s_def)
  have result: "truediv n 100 = Inr \<lparr>mantissa = sgn n * m, exponent = e\<rparr>"
    using False fits by (simp add: truediv_def Let_def a_def [symmetric] x)
  have abs: "\<bar>sgn n * m\<bar> = m" using False m_pos by (simp add: abs_mult)
  have neg: "sgn n * m < 0 \<longleftrightarrow> n < 0"
    using False m_pos by (simp add: mult_less_0_iff sgn_if)
  have "m * 100 - 2 ^ s * a = 100 * m - t" by (simp add: t_def)
  moreover have "\<bar>100 * m - t\<bar> \<le> 50"
    using near by (simp add: abs_le_iff)
  ultimately have "2 * \<bar>m * 100 - 2 ^ s * a\<bar> \<le> 100" by simp
  moreover have "(100::int) < 2 ^ s" using big by simp
  ultimately have "2 * \<bar>m * 100 - 2 ^ s * a\<bar> < 2 ^ s" by (rule le_less_trans)
  then have roundtrip: "round_half_even (m * 100) (2 ^ s) = a"
    by (intro round_half_even_unique) simp_all
  have "format_2f \<lparr>mantissa = sgn n * m, exponent = e\<rparr> = two_decimals n"
    using s by (simp add: format_2f_def Let_def abs neg roundtrip [unfolded s_def]
                  two_decimals_def a_def [symmetric])
  with result show ?thesis by simp
qed

subsection \<open>The runs that succeed\<close>

lemma refund_command_try_succeeds:
  assumes "Charge_retrieve_result env c = Inr ()"
    and "getitem command ''user_id'' = Inr u"
    and "getitem command ''channel_id'' = Inr ch"
    and "Refund_create_result env
           [(''charge'', Str (Some c)), (''reason'', Str (Some ''requested_by_customer'')),
            (''metadata'', Metadata [(''slack_user_id'', Some u), (''slack_channel_id'', Some ch)])]
         = Inr rf"
    and "truediv (amount rf) 100 = Inr x"
  shows "refund_command_try env command c =
           (respond_result env
              \<lparr>response_type = ''in_channel'', replace_original = Some True,
               blocks = receipt_blocks rf x (upper (currency rf)) c\<rparr>,
            [Charge_retrieve c,
             Refund_create
               [(''charge'', Str (Some c)), (''reason'', Str (Some ''requested_by_customer'')),
                (''metadata'', Metadata [(''slack_user_id'', Some u),
                                         (''slack_channel_id'', Some ch)])],
             Respond
               \<lparr>response_type = ''in_channel'', replace_original = Some True,
                blocks = receipt_blocks rf x (upper (currency rf)) c\<rparr>])"
  using assms by (simp add: refund_command_try_def and_then_def run_simps)

lemma handle_refund_submission_try_succeeds:
  assumes "py_int (int_error_text env) (int_otherwise env) a = Inr n"
    and "Refund_create_result env
           [(''payment_intent'', Str p), (''amount'', Integer n),
            (''reason'', Str (Some ''requested_by_customer'')),
            (''metadata'', Metadata [(''slack_user_id'', Some u), (''reason'', r)])]
         = Inr rf"
    and "truediv (amount rf) 100 = Inr x"
    and "chat_postMessage_result env
           \<lparr>channel = u, message_text = ''Refund processed: $'' @ format_2f x,
            message_blocks = Some (modal_receipt_blocks rf x p r)\<rparr> = Inr ()"
  shows "handle_refund_submission_try env body u p a r =
           (if has_channel body
            then (case channel_id_of body of
                    Inl e \<Rightarrow> Inl e
                  | Inr channel_id \<Rightarrow> chat_postMessage_result env (announcement channel_id x u))
            else Inr (),
            [Refund_create
               [(''payment_intent'', Str p), (''amount'', Integer n),
                (''reason'', Str (Some ''requested_by_customer'')),
                (''metadata'', Metadata [(''slack_user_id'', Some u), (''reason'', r)])],
             Chat_postMessage
               \<lparr>channel = u, message_text = ''Refund processed: $'' @ format_2f x,
                message_blocks = Some (modal_receipt_blocks rf x p r)\<rparr>]
            @ (if has_channel body
               then (case channel_id_of body of
                       Inl e \<Rightarrow> []
                     | Inr channel_id \<Rightarrow> [Chat_postMessage (announcement channel_id x u)])
               else []))"
  using assms
  by (simp add: handle_refund_submission_try_def and_then_def run_simps channel_id_of_def
        split: sum.splits)

lemma api_key_calls:
  "ack (env\<lparr>api_key := k\<rparr>) = ack env"
  "respond (env\<lparr>api_key := k\<rparr>) = respond env"
  "chat_postMessage (env\<lparr>api_key := k\<rparr>) = chat_postMessage env"
  "Charge_retrieve_call (env\<lparr>api_key := k\<rparr>) = Charge_retrieve_call env"
  "Refund_create_call (env\<lparr>api_key := k\<rparr>) = Refund_create_call env"
  "int_error_text (env\<lparr>api_key := k\<rparr>) = int_error_text env"
  "int_otherwise (env\<lparr>api_key := k\<rparr>) = int_otherwise env"
  by (simp_all add: fun_eq_iff ack_def respond_def chat_postMessage_def
        Charge_retrieve_call_def Refund_create_call_def)

lemma refund_command_except_api_key:
  "refund_command_except (env\<lparr>api_key := k\<rparr>) c = refund_command_except env c"
proof
  fix e show "refund_command_except (env\<lparr>api_key := k\<rparr>) c e = refund_command_except env c e"
    by (cases e) (simp_all only: refund_command_except.simps api_key_calls)
qed

lemma refund_command_api_key:
  "refund_command (env\<lparr>api_key := k\<rparr>) command = refund_command env command"
  unfolding refund_command_def refund_command_try_def api_key_calls
    refund_command_except_api_key
  by (rule refl)

lemma handle_refund_submission_api_key:
  "handle_refund_submission (env\<lparr>api_key := k\<rparr>) body view = handle_refund_submission env body view"
  unfolding handle_refund_submission_def handle_refund_submission_try_def
    handle_refund_submission_except_def [abs_def] api_key_calls
  by (rule refl)

lemma example_amounts:
  "truediv (amount example_refund) 100 = Inr \<lparr>mantissa = 5626684784446013, exponent = - 48\<rparr>"
  "format_2f \<lparr>mantissa = 5626684784446013, exponent = - 48\<rparr> = ''19.99''"
  "two_decimals (amount example_refund) = ''19.99''"
  by code_simp+

lemma example_amount_small: "\<bar>amount example_refund\<bar> < 2 ^ 52"
  by (simp add: example_refund_def)

lemma example_refund_texts:
  "upper (currency example_refund) = ''USD''"
  "upper (status example_refund) = ''SUCCEEDED''"
  "title (status example_refund) = ''Succeeded''"
  "refund_id example_refund = ''re_1''"
  by code_simp+

lemma digit_chars:
  "digit_char 0 = CHR ''0''" "digit_char (Suc 0) = CHR ''1''" "digit_char 2 = CHR ''2''"
  "digit_char 3 = CHR ''3''" "digit_char 4 = CHR ''4''" "digit_char 5 = CHR ''5''"
  "digit_char 6 = CHR ''6''" "digit_char 7 = CHR ''7''" "digit_char 8 = CHR ''8''"
  "digit_char 9 = CHR ''9''"
  by code_simp+

lemma example_created: "str_int (created example_refund) = ''1700000000''"
proof -
  have "str_int 1700000000 = ''1700000000''"
    by (simp add: str_int_def str_nat.simps digit_chars)
  then show ?thesis by (simp add: example_refund_def)
qed

lemma example_has_channel:
  "has_channel example_body"
  "channel_id_of example_body = Inr ''C1''"
  by (simp_all add: has_channel_def channel_id_of_def example_body_def getitem_def
        then_getitem_def)

subsection \<open>The shape of a run\<close>

lemma messages_simps:
  "messages [] = []"
  "messages (Chat_postMessage m # cs) = m # messages cs"
  "messages (Ack # cs) = messages cs"
  "messages (Respond x # cs) = messages cs"
  "messages (Charge_retrieve c # cs) = messages cs"
  "messages (Refund_create q # cs) = messages cs"
  "messages (cs @ cs') = messages cs @ messages cs'"
  by (simp_all add: messages_def map_filter_def)

lemma refund_command_succeeds:
  assumes "ack_result env = Inr ()"
    and "startswith (charge_id_of command) ''ch_''"
    and "respond_result env processing = Inr ()"
    and "Charge_retrieve_result env (charge_id_of command) = Inr ()"
    and "getitem command ''user_id'' = Inr u"
    and "getitem command ''channel_id'' = Inr ch"
    and "Refund_create_result env
           [(''charge'', Str (Some (charge_id_of command))),
            (''reason'', Str (Some ''requested_by_customer'')),
            (''metadata'', Metadata [(''slack_user_id'', Some u), (''slack_channel_id'', Some ch)])]
         = Inr rf"
    and "truediv (amount rf) 100 = Inr x"
  shows "calls (refund_command env command) =
           [Ack, Respond processing, Charge_retrieve (charge_id_of command),
            Refund_create
              [(''charge'', Str (Some (charge_id_of command))),
               (''reason'', Str (Some ''requested_by_customer'')),
               (''metadata'', Metadata [(''slack_user_id'', Some u),
                                        (''slack_channel_id'', Some ch)])],
            Respond
              \<lparr>response_type = ''in_channel'', replace_original = Some True,
               blocks = receipt_blocks rf x (upper (currency rf)) (charge_id_of command)\<rparr>]
           @ (case respond_result env
                     \<lparr>response_type = ''in_channel'', replace_original = Some True,
                      blocks = receipt_blocks rf x (upper (currency rf)) (charge_id_of command)\<rparr> of
                Inl e \<Rightarrow> calls (refund_command_except env (charge_id_of command) e)
              | Inr v \<Rightarrow> [])"
proof -
  have "charge_id_of command \<noteq> []"
    using assms(2) by (auto simp: startswith_def)
  then show ?thesis
    using assms
    by (simp add: calls_refund_command
          refund_command_try_succeeds [OF assms(4) assms(5) assms(6) assms(7) assms(8)]
          split: sum.splits)
qed

lemma receipt_texts:
  "call_texts (Respond \<lparr>response_type = t, replace_original = ro,
                         blocks = receipt_blocks rf x cur c\<rparr>) =
     [money_bag @ '' Refund Receipt'',
      ''*Refund ID:*'' @ newline @ refund_id rf,
      ''*Amount:*'' @ newline @ ''$'' @ format_2f x @ '' '' @ cur,
      ''*Status:*'' @ newline @ upper (status rf),
      ''*Original Charge:*'' @ newline @ c,
      ''*Reason:*'' @ newline @ ''Requested by customer'',
      ''*Timestamp:*'' @ newline @ ''<!date^'' @ str_int (created rf)
         @ ''^{date_short} {time}|'' @ str_int (created rf) @ ''>'',
      test_tube @ '' *TEST MODE* - Refund will appear on the original payment method within 5-10 business days.'']"
  by (simp add: receipt_blocks_def)

lemma modal_receipt_texts:
  "call_texts (Chat_postMessage
                 \<lparr>channel = u, message_text = t,
                  message_blocks = Some (modal_receipt_blocks rf x p r)\<rparr>) =
     [t,
      check_mark @ '' *Refund Processed Successfully*'',
      ''*Refund ID:*'' @ newline @ refund_id rf,
      ''*Amount:*'' @ newline @ ''$'' @ format_2f x,
      ''*Status:*'' @ newline @ title (status rf),
      ''*Payment Intent:*'' @ newline @ format_str p,
      ''*Reason:* '' @ format_str r,
      ''Refund will appear on your original payment method within 5-10 business days.'']"
  by (simp add: modal_receipt_blocks_def)

lemma announcement_texts:
  "call_texts (Chat_postMessage (announcement channel_id x u)) =
     [''Refund of $'' @ format_2f x @ '' has been processed for <@'' @ u @ ''>'',
      check_mark @ '' Refund of *$'' @ format_2f x @ ''* processed for <@'' @ u @ ''>'']"
  by (simp add: announcement_def)

lemma handle_refund_submission_succeeds:
  assumes "ack_result env = Inr ()"
    and "\<forall>m. chat_postMessage_result env m = Inr ()"
    and "submission_fields body view = Inr (u, p, a, r)"
    and "py_int (int_error_text env) (int_otherwise env) a = Inr n"
    and "Refund_create_result env
           [(''payment_intent'', Str p), (''amount'', Integer n),
            (''reason'', Str (Some ''requested_by_customer'')),
            (''metadata'', Metadata [(''slack_user_id'', Some u), (''reason'', r)])]
         = Inr rf"
    and "truediv (amount rf) 100 = Inr x"
    and "has_channel body \<longrightarrow> channel_id_of body = Inr channel_id"
  shows "handle_refund_submission env body view =
           (Inr (),
            [Ack,
             Refund_create
               [(''payment_intent'', Str p), (''amount'', Integer n),
                (''reason'', Str (Some ''requested_by_customer'')),
                (''metadata'', Metadata [(''slack_user_id'', Some u), (''reason'', r)])],
             Chat_postMessage
               \<lparr>channel = u, message_text = ''Refund processed: $'' @ format_2f x,
                message_blocks = Some (modal_receipt_blocks rf x p r)\<rparr>]
            @ (if has_channel body then [Chat_postMessage (announcement channel_id x u)] else []))"
proof -
  have post: "chat_postMessage_result env m = Inr ()" for m
    using assms(2) by simp
  note run = handle_refund_submission_try_succeeds [OF assms(4) assms(5) assms(6) post]
  show ?thesis
    using assms(1) assms(7)
    by (simp add: prod_eq_iff calls_handle_refund_submission [OF assms(3)]
          result_handle_refund_submission [OF assms(3)] run post)
qed

lemma refund_command_try_shape:
  "(\<exists>q x. calls (refund_command_try env command c) = [Charge_retrieve c, Refund_create q, Respond x]
          \<and> replace_original x = Some True
          \<and> result (refund_command_try env command c) = respond_result env x)
   \<or> ((\<exists>e. result (refund_command_try env command c) = Inl e)
       \<and> \<not> list_ex is_response (calls (refund_command_try env command c)))"
  by (auto simp: refund_command_try_def run_simps split: sum.splits)

lemma handle_refund_submission_try_shape:
  assumes "\<forall>m. chat_postMessage_result env m = Inr ()"
    and "has_channel body \<longrightarrow> channel_id_of body = Inr channel_id"
  shows "((\<exists>e. result (handle_refund_submission_try env body u p a r) = Inl e)
            \<and> messages (calls (handle_refund_submission_try env body u p a r)) = [])
         \<or> (result (handle_refund_submission_try env body u p a r) = Inr ()
            \<and> (\<exists>dm x. channel dm = u
                  \<and> messages (calls (handle_refund_submission_try env body u p a r)) =
                      dm # (if has_channel body then [announcement channel_id x u] else [])))"
  using assms
  by (auto simp: handle_refund_submission_try_def run_simps messages_simps channel_id_of_def
           split: sum.splits)

lemma handle_refund_submission_try_no_response:
  "\<not> list_ex is_response (calls (handle_refund_submission_try env body u p a r))"
  by (auto simp: handle_refund_submission_try_def run_simps split: sum.splits)

section \<open>The claims\<close>

text \<open>
  C10. In the run of the handler of \<open>/refund\<close>, a call that creates a refund comes only
  after the call that retrieves the charge, no call to the processor comes before that
  one, and the retrieval has succeeded; when the retrieval raises, no refund is created;
  and for a charge id that passes validation, once the acknowledgement and the
  placeholder have gone out, the charge is retrieved.
\<close>

theorem C10_refund_created_only_after_charge_retrieved:
  "(list_ex refund_creation (calls (refund_command env command)) \<longrightarrow>
      (\<exists>before after.
          calls (refund_command env command)
            = before @ Charge_retrieve (charge_id_of command) # after
        \<and> \<not> list_ex processor_call before
        \<and> Charge_retrieve_result env (charge_id_of command) = Inr ()))
   \<and> ((\<exists>e. Charge_retrieve_result env (charge_id_of command) = Inl e) \<longrightarrow>
        \<not> list_ex refund_creation (calls (refund_command env command)))
   \<and> (ack_result env = Inr () \<and> respond_result env processing = Inr ()
        \<and> startswith (charge_id_of command) ''ch_'' \<longrightarrow>
        list_ex (\<lambda>c. c = Charge_retrieve (charge_id_of command)) (calls (refund_command env command)))"
proof -
  let ?c = "charge_id_of command"
  obtain rest where rest:
    "calls (refund_command_try env command ?c) = Charge_retrieve ?c # rest"
    "list_ex refund_creation rest \<longrightarrow> Charge_retrieve_result env ?c = Inr ()"
    using calls_refund_command_try by blast
  have no: "\<not> list_ex refund_creation (calls (refund_command_except env ?c e))" for e
    by (cases e) (auto simp: run_simps ephemeral_replacing_def)
  have first: "list_ex refund_creation (calls (refund_command env command)) \<Longrightarrow>
      calls (refund_command env command)
        = [Ack, Respond processing] @ Charge_retrieve ?c
            # (rest @ (case result (refund_command_try env command ?c) of
                         Inl e \<Rightarrow> calls (refund_command_except env ?c e) | Inr u \<Rightarrow> []))
      \<and> Charge_retrieve_result env ?c = Inr ()"
    using rest no
    by (auto simp: calls_refund_command ephemeral_def processing_def list_ex_iff
             split: sum.splits if_splits)
  have c1: "list_ex refund_creation (calls (refund_command env command)) \<longrightarrow>
      (\<exists>before after.
          calls (refund_command env command) = before @ Charge_retrieve ?c # after
        \<and> \<not> list_ex processor_call before
        \<and> Charge_retrieve_result env ?c = Inr ())"
  proof
    assume a: "list_ex refund_creation (calls (refund_command env command))"
    have "\<not> list_ex processor_call [Ack, Respond processing]" by simp
    with first [OF a] show "\<exists>before after.
          calls (refund_command env command) = before @ Charge_retrieve ?c # after
        \<and> \<not> list_ex processor_call before
        \<and> Charge_retrieve_result env ?c = Inr ()"
      by blast
  qed
  have c2: "(\<exists>e. Charge_retrieve_result env ?c = Inl e) \<longrightarrow>
        \<not> list_ex refund_creation (calls (refund_command env command))"
    using first by auto
  have c3: "ack_result env = Inr () \<and> respond_result env processing = Inr ()
        \<and> startswith ?c ''ch_'' \<longrightarrow>
        list_ex (\<lambda>c. c = Charge_retrieve ?c) (calls (refund_command env command))"
    using rest(1) by (auto simp: calls_refund_command startswith_def)
  from c1 c2 c3 show ?thesis by blast
qed

theorem C10_witness:
  "list_ex refund_creation (calls (refund_command example_env (example_command '' ch_abc123 '')))
   \<and> (\<exists>before after.
          calls (refund_command example_env (example_command '' ch_abc123 ''))
            = before @ Charge_retrieve ''ch_abc123'' # after
        \<and> \<not> list_ex processor_call before
        \<and> Charge_retrieve_result example_env ''ch_abc123'' = Inr ())"
proof -
  have run: "list_ex refund_creation
               (calls (refund_command example_env (example_command '' ch_abc123 '')))"
    by (simp add: calls_refund_command example_charge_id startswith_def refund_command_try_def
          run_simps example_command_items example_env_def example_truediv)
  from C10_refund_created_only_after_charge_retrieved
         [of example_env "example_command '' ch_abc123 ''"] run
  show ?thesis by (simp only: example_charge_id)
qed

text \<open>
  C2, as amended. A charge id that, trimmed, is empty or does not start with \<open>ch_\<close> never
  reaches the processor: the handler answers with one ephemeral message that starts
  with the cross mark and contains the usage line, and for the empty id it is the
  request to provide a charge id.
\<close>

theorem C2_charge_id_without_prefix_is_refused_before_any_processor_call:
  assumes "\<not> startswith (charge_id_of command) ''ch_''"
  shows "\<not> list_ex processor_call (calls (refund_command env command))
     \<and> (ack_result env = Inr () \<longrightarrow>
          (\<exists>t. calls (refund_command env command) = [Ack, Respond (ephemeral t)]
             \<and> startswith t cross_mark \<and> str_in usage t
             \<and> (charge_id_of command = [] \<longrightarrow>
                  t = cross_mark @ '' Please provide a charge ID.'' @ newline @ newline @ usage)))"
proof (cases "charge_id_of command = []")
  case True
  have "str_in usage ((cross_mark @ '' Please provide a charge ID.'' @ newline @ newline) @ usage @ [])"
    by (rule str_in_append)
  with True show ?thesis
    by (auto simp: calls_refund_command startswith_def split: sum.splits)
next
  case False
  have "str_in usage ((cross_mark @ '' Invalid charge ID format. Charge IDs must start with `ch_`.''
                     @ newline @ newline) @ usage @ [])"
    by (rule str_in_append)
  with False assms show ?thesis
    by (auto simp: calls_refund_command startswith_def split: sum.splits)
qed

theorem C2_witness:
  "\<not> startswith (charge_id_of (example_command ''   '')) ''ch_''
   \<and> calls (refund_command example_env (example_command ''   ''))
       = [Ack, Respond (ephemeral
            (cross_mark @ '' Please provide a charge ID.'' @ newline @ newline @ usage))]"
proof -
  have h: "\<not> startswith (charge_id_of (example_command ''   '')) ''ch_''"
    by (simp add: example_empty_charge_id startswith_def)
  have a: "ack_result example_env = Inr ()"
    by (simp add: example_env_def)
  from C2_charge_id_without_prefix_is_refused_before_any_processor_call
         [OF h, of example_env] a example_empty_charge_id h
  show ?thesis by auto
qed

text \<open>
  The claim as stated fails at the id \<open>ch_\<close>: it does not match \<open>^ch_.+\<close>, and the
  handler retrieves the charge \<open>ch_\<close> from the processor.
\<close>

theorem C2_counterexample:
  "\<not> matches_ch_pattern (charge_id_of (example_command ''ch_''))
   \<and> Charge_retrieve ''ch_'' \<in> set (calls (refund_command example_env (example_command ''ch_'')))"
  by (simp add: calls_refund_command example_bare_prefix matches_ch_pattern_def startswith_def
        refund_command_try_def run_simps example_env_def)




text \<open>
  C4. Every call that carries an error text is private: in the run of the handler of
  \<open>/refund\<close> it is an ephemeral response, and in the run of the handler of the
  submission it is a message posted to the requester, \<open>body["user"]["id"]\<close>. This holds
  whatever the services answer and whatever the payloads hold.
\<close>

theorem C4_error_texts_are_private:
  "(\<forall>c \<in> set (calls (refund_command env command)). carries_error c \<longrightarrow> ephemeral_response c)
   \<and> (\<forall>c \<in> set (calls (handle_refund_submission env body view)).
         carries_error c \<longrightarrow> (\<exists>u. user_id_of body = Inr u \<and> direct_message_to u c))"
proof
  have "\<forall>c \<in> set (calls (refund_command_try env command (charge_id_of command))).
          \<not> carries_error c"
    using try_carries_no_error [of env command "charge_id_of command"]
    by (simp add: list_ex_iff)
  then show "\<forall>c \<in> set (calls (refund_command env command)).
               carries_error c \<longrightarrow> ephemeral_response c"
    using processing_carries_no_error
    by (auto simp: calls_refund_command calls_refund_command_except_eq ephemeral_def
               ephemeral_replacing_def carries_error_def
             split: sum.splits if_splits)
next
  show "\<forall>c \<in> set (calls (handle_refund_submission env body view)).
          carries_error c \<longrightarrow> (\<exists>u. user_id_of body = Inr u \<and> direct_message_to u c)"
  proof (cases "submission_fields body view")
    case (Inl e)
    then show ?thesis
      by (auto simp: handle_refund_submission_no_fields carries_error_def split: sum.splits)
  next
    case (Inr f)
    obtain u p a r where f: "f = (u, p, a, r)" by (cases f)
    have user: "user_id_of body = Inr u"
      using Inr f by (auto simp: submission_fields_def split: sum.splits)
    have "\<forall>c \<in> set (calls (handle_refund_submission_try env body u p a r)). \<not> carries_error c"
      using submission_try_carries_no_error [of env body u p a r] by (simp add: list_ex_iff)
    then show ?thesis
      using user
      by (auto simp: calls_handle_refund_submission [OF Inr [unfolded f]] carries_error_def
               split: sum.splits)
  qed
qed
theorem C4_witness:
  "Respond (ephemeral_replacing (cross_mark @ '' Stripe error: card network down''))
     \<in> set (calls (refund_command (failing_env (StripeError ''card network down''))
                     (example_command '' ch_abc123 '')))
   \<and> carries_error (Respond (ephemeral_replacing (cross_mark @ '' Stripe error: card network down'')))
   \<and> ephemeral_response (Respond (ephemeral_replacing (cross_mark @ '' Stripe error: card network down'')))
   \<and> Chat_postMessage
        \<lparr>channel = ''U1'', message_text = cross_mark @ '' Refund failed: card network down'',
         message_blocks = None\<rparr>
     \<in> set (calls (handle_refund_submission (failing_env (StripeError ''card network down''))
                     example_body (example_view ''pi_1'' ''2500'' ''duplicate charge'')))
   \<and> carries_error
        (Chat_postMessage
           \<lparr>channel = ''U1'', message_text = cross_mark @ '' Refund failed: card network down'',
            message_blocks = None\<rparr>)
   \<and> (\<exists>u. user_id_of example_body = Inr u
          \<and> direct_message_to u
               (Chat_postMessage
                  \<lparr>channel = ''U1'', message_text = cross_mark @ '' Refund failed: card network down'',
                   message_blocks = None\<rparr>))"
proof -
  let ?env = "failing_env (StripeError ''card network down'')"
  let ?r = "Respond (ephemeral_replacing (cross_mark @ '' Stripe error: card network down''))"
  let ?m = "Chat_postMessage
        \<lparr>channel = ''U1'', message_text = cross_mark @ '' Refund failed: card network down'',
         message_blocks = None\<rparr>"
  have r_in: "?r \<in> set (calls (refund_command ?env (example_command '' ch_abc123 '')))"
    by (simp add: calls_refund_command example_charge_id startswith_def example_try_fails
          calls_refund_command_except_eq example_env_results run_simps)
  have r_err: "carries_error ?r"
    by (simp add: carries_error_def ephemeral_replacing_def startswith_def)
  have m_in: "?m \<in> set (calls (handle_refund_submission ?env example_body
                              (example_view ''pi_1'' ''2500'' ''duplicate charge'')))"
    by (simp add: calls_handle_refund_submission [OF example_fields] example_env_results
          example_submission_try_fails submission_error_text_def)
  have m_err: "carries_error ?m"
    by (simp add: carries_error_def startswith_def)
  note claim = C4_error_texts_are_private
                 [of ?env "example_command '' ch_abc123 ''" example_body
                     "example_view ''pi_1'' ''2500'' ''duplicate charge''"]
  from claim r_in r_err have r_private: "ephemeral_response ?r" by blast
  from claim m_in m_err
  have m_private: "\<exists>u. user_id_of example_body = Inr u \<and> direct_message_to u ?m" by blast
  show ?thesis
    by (intro conjI) (rule r_in r_err r_private m_in m_err m_private)+
qed

text \<open>
  C3, as amended. In the run of the handler of \<open>/refund\<close>, an exception \<open>e\<close> raised in the
  \<open>try\<close> is answered with the line of its category: an \<open>InvalidRequestError\<close> whose
  message contains "No such charge" is \<open>NotFound\<close>, another one whose message contains
  "already been refunded" is \<open>AlreadyRefunded\<close>, any other one is \<open>InvalidRequest\<close> with the
  message passed through, any other \<open>StripeError\<close> is \<open>ProcessorError\<close> with the message
  passed through, and any other exception is \<open>InternalError\<close>. In the run of the handler
  of the submission the message is not read: every \<open>StripeError\<close> is reported as
  "Refund failed:" and any other exception as an unexpected error, each with the message
  passed through.
\<close>

theorem C3_errors_worded_by_category_in_command_flow_only:
  "(ack_result env = Inr () \<and> startswith (charge_id_of command) ''ch_''
      \<and> respond_result env processing = Inr ()
      \<and> result (refund_command_try env command (charge_id_of command)) = Inl e
     \<longrightarrow> calls (refund_command env command) =
           [Ack, Respond processing]
             @ calls (refund_command_try env command (charge_id_of command))
             @ [Respond (ephemeral_replacing
                  (category_text (category_of e) (charge_id_of command) (str_exn e)))])
   \<and> (ack_result env = Inr () \<and> submission_fields body view = Inr (user_id, p, a, r)
      \<and> result (handle_refund_submission_try env body user_id p a r) = Inl e'
     \<longrightarrow> calls (handle_refund_submission env body view) =
           [Ack] @ calls (handle_refund_submission_try env body user_id p a r)
             @ [Chat_postMessage
                  \<lparr>channel = user_id,
                   message_text = cross_mark
                     @ (if is_StripeError e' then '' Refund failed: ''
                        else '' An error occurred while processing the refund: '')
                     @ str_exn e',
                   message_blocks = None\<rparr>])"
proof (intro conjI impI)
  assume "ack_result env = Inr () \<and> startswith (charge_id_of command) ''ch_''
      \<and> respond_result env processing = Inr ()
      \<and> result (refund_command_try env command (charge_id_of command)) = Inl e"
  then show "calls (refund_command env command) =
           [Ack, Respond processing]
             @ calls (refund_command_try env command (charge_id_of command))
             @ [Respond (ephemeral_replacing
                  (category_text (category_of e) (charge_id_of command) (str_exn e)))]"
    by (auto simp: calls_refund_command calls_refund_command_except_eq startswith_def)
next
  assume h: "ack_result env = Inr () \<and> submission_fields body view = Inr (user_id, p, a, r)
      \<and> result (handle_refund_submission_try env body user_id p a r) = Inl e'"
  then have f: "submission_fields body view = Inr (user_id, p, a, r)" by simp
  from h show "calls (handle_refund_submission env body view) =
           [Ack] @ calls (handle_refund_submission_try env body user_id p a r)
             @ [Chat_postMessage
                  \<lparr>channel = user_id,
                   message_text = cross_mark
                     @ (if is_StripeError e' then '' Refund failed: ''
                        else '' An error occurred while processing the refund: '')
                     @ str_exn e',
                   message_blocks = None\<rparr>]"
    by (simp add: calls_handle_refund_submission [OF f] submission_error_text_def)
qed

theorem C3_witness:
  "(ack_result (failing_env (InvalidRequestError ''Charge ch_abc123 has already been refunded.''))
      = Inr ()
    \<and> startswith (charge_id_of (example_command '' ch_abc123 '')) ''ch_''
    \<and> respond_result (failing_env (InvalidRequestError ''Charge ch_abc123 has already been refunded.''))
         processing = Inr ()
    \<and> result (refund_command_try
                 (failing_env (InvalidRequestError ''Charge ch_abc123 has already been refunded.''))
                 (example_command '' ch_abc123 '') (charge_id_of (example_command '' ch_abc123 '')))
         = Inl (InvalidRequestError ''Charge ch_abc123 has already been refunded.''))
   \<and> last (calls (refund_command
                    (failing_env (InvalidRequestError ''Charge ch_abc123 has already been refunded.''))
                    (example_command '' ch_abc123 '')))
       = Respond (ephemeral_replacing (cross_mark @ '' This charge has already been fully refunded.''))
   \<and> (ack_result (failing_env (StripeError ''card network down'')) = Inr ()
    \<and> submission_fields example_body (example_view ''pi_1'' ''2500'' ''duplicate charge'')
         = Inr (''U1'', Some ''pi_1'', Some ''2500'', Some ''duplicate charge'')
    \<and> result (handle_refund_submission_try (failing_env (StripeError ''card network down''))
                 example_body ''U1'' (Some ''pi_1'') (Some ''2500'') (Some ''duplicate charge''))
         = Inl (StripeError ''card network down''))
   \<and> last (calls (handle_refund_submission (failing_env (StripeError ''card network down''))
                    example_body (example_view ''pi_1'' ''2500'' ''duplicate charge'')))
       = Chat_postMessage
           \<lparr>channel = ''U1'', message_text = cross_mark @ '' Refund failed: card network down'',
            message_blocks = None\<rparr>"
proof -
  let ?e = "InvalidRequestError ''Charge ch_abc123 has already been refunded.''"
  let ?e' = "StripeError ''card network down''"
  let ?command = "example_command '' ch_abc123 ''"
  let ?view = "example_view ''pi_1'' ''2500'' ''duplicate charge''"
  have category: "category_of ?e = AlreadyRefunded"
    by code_simp
  have h1: "ack_result (failing_env ?e) = Inr ()
    \<and> startswith (charge_id_of ?command) ''ch_''
    \<and> respond_result (failing_env ?e) processing = Inr ()
    \<and> result (refund_command_try (failing_env ?e) ?command (charge_id_of ?command)) = Inl ?e"
    by (simp add: example_env_results example_charge_id startswith_def example_try_fails)
  have h2: "ack_result (failing_env ?e') = Inr ()
    \<and> submission_fields example_body ?view
         = Inr (''U1'', Some ''pi_1'', Some ''2500'', Some ''duplicate charge'')
    \<and> result (handle_refund_submission_try (failing_env ?e') example_body ''U1'' (Some ''pi_1'')
                 (Some ''2500'') (Some ''duplicate charge'')) = Inl ?e'"
    by (simp add: example_env_results example_fields example_submission_try_fails)
  note claim = C3_errors_worded_by_category_in_command_flow_only
                 [where env = "failing_env ?e" and command = ?command and e = ?e,
                  THEN conjunct1, rule_format, OF h1]
  note claim' = C3_errors_worded_by_category_in_command_flow_only
                 [where env = "failing_env ?e'" and body = example_body and view = ?view
                    and user_id = "''U1''" and p = "Some ''pi_1''" and a = "Some ''2500''"
                    and r = "Some ''duplicate charge''" and e' = ?e',
                  THEN conjunct2, rule_format, OF h2]
  have l1: "last (calls (refund_command (failing_env ?e) ?command))
       = Respond (ephemeral_replacing (cross_mark @ '' This charge has already been fully refunded.''))"
    by (simp add: claim category)
  have l2: "last (calls (handle_refund_submission (failing_env ?e') example_body ?view))
       = Chat_postMessage
           \<lparr>channel = ''U1'', message_text = cross_mark @ '' Refund failed: card network down'',
            message_blocks = None\<rparr>"
    by (simp add: claim')
  show ?thesis
    by (rule conjI [OF h1 conjI [OF l1 conjI [OF h2 l2]]])
qed

text \<open>
  The claim as stated fails in the run of the handler of the submission: an
  \<open>InvalidRequestError\<close> that says "No such charge", of category \<open>NotFound\<close>, is reported
  with the same message as a \<open>StripeError\<close> of category \<open>ProcessorError\<close> with that text,
  the message passed through after "Refund failed:".
\<close>

theorem C3_counterexample:
  "category_of (InvalidRequestError ''No such charge: pi_404'') = NotFound
   \<and> category_of (StripeError ''No such charge: pi_404'') = ProcessorError
   \<and> calls (handle_refund_submission (failing_env (InvalidRequestError ''No such charge: pi_404''))
              example_body (example_view ''pi_404'' ''2500'' ''duplicate charge''))
       = [Ack,
          Refund_create
            [(''payment_intent'', Str (Some ''pi_404'')), (''amount'', Integer 2500),
             (''reason'', Str (Some ''requested_by_customer'')),
             (''metadata'', Metadata [(''slack_user_id'', Some ''U1''),
                                      (''reason'', Some ''duplicate charge'')])],
          Chat_postMessage
            \<lparr>channel = ''U1'',
             message_text = cross_mark @ '' Refund failed: No such charge: pi_404'',
             message_blocks = None\<rparr>]
   \<and> calls (handle_refund_submission (failing_env (StripeError ''No such charge: pi_404''))
              example_body (example_view ''pi_404'' ''2500'' ''duplicate charge''))
       = calls (handle_refund_submission (failing_env (InvalidRequestError ''No such charge: pi_404''))
                 example_body (example_view ''pi_404'' ''2500'' ''duplicate charge''))"
proof -
  have "category_of (InvalidRequestError ''No such charge: pi_404'') = NotFound"
    by code_simp
  then show ?thesis
    by (simp add: calls_handle_refund_submission [OF example_fields] example_env_results
          example_submission_try_fails submission_error_text_def)
qed




end
